theory Spec2Isabelle
  imports Main
begin

section \<open>Credential store\<close>

text \<open>
  The two Mongoose models of \<^verbatim>\<open>models/authModels\<close>. A user document has the fields
  \<^verbatim>\<open>_id\<close>, \<^verbatim>\<open>email\<close>, \<^verbatim>\<open>hashed_password\<close> and \<^verbatim>\<open>role\<close>; the schema stores the role as a
  plain \<^verbatim>\<open>String\<close> (no enum validator), so it is a string here. A session document has
  \<^verbatim>\<open>_id\<close>, \<^verbatim>\<open>user_id\<close>, \<^verbatim>\<open>active_expires\<close> and \<^verbatim>\<open>idle_expires\<close>; it is stored under its
  \<^verbatim>\<open>_id\<close>, the primary key of the collection. Instants are milliseconds since the epoch,
  integers far below \<open>2^53\<close>, so JavaScript's number arithmetic on them is exact.
\<close>

record user_doc =
  u_id :: string
  u_email :: string
  u_hashed_password :: string
  u_role :: string

record session_doc =
  s_user_id :: string
  active_expires :: int
  idle_expires :: int

text \<open>
  The store also carries the schedule of its own outages: the head of \<open>faults\<close> says
  whether the next store round trip raises. An empty schedule is a store that stays up.
\<close>

record db =
  users :: "user_doc list"
  sessions :: "string \<rightharpoonup> session_doc"
  faults :: "bool list"

datatype error = StoreError | DuplicateKey | ValidationError | HashError

type_synonym 'a action = "db \<Rightarrow> (error + 'a) \<times> db"

definition return :: "'a \<Rightarrow> 'a action" where
  "return v db = (Inr v, db)"

definition throw :: "error \<Rightarrow> 'a action" where
  "throw e db = (Inl e, db)"

definition await :: "'a action \<Rightarrow> ('a \<Rightarrow> 'b action) \<Rightarrow> 'b action" where
  "await m k db = (case m db of (Inl e, db') \<Rightarrow> (Inl e, db') | (Inr v, db') \<Rightarrow> k v db')"

definition try_catch :: "'a action \<Rightarrow> (error \<Rightarrow> 'a action) \<Rightarrow> 'a action" where
  "try_catch m h db = (case m db of (Inl e, db') \<Rightarrow> h e db' | (Inr v, db') \<Rightarrow> (Inr v, db'))"

definition next_fails :: "db \<Rightarrow> bool" where
  "next_fails d = (case faults d of [] \<Rightarrow> False | f # _ \<Rightarrow> f)"

definition advance :: "db \<Rightarrow> db" where
  "advance d = d\<lparr>faults := tl (faults d)\<rparr>"

definition healthy :: "db \<Rightarrow> bool" where
  "healthy d = list_all Not (faults d)"

text \<open>
  Modelled from the spec: the Credential Store is an external collaborator (Mongoose over
  MongoDB); only its schemas are in the source. It provides point lookups by id and by
  email, insertion, update of the expiry, delete by id and delete by owner. Every
  operation is one round trip, which either raises and changes nothing or takes effect.
  The schemas make \<^verbatim>\<open>_id\<close> the primary key, declare \<^verbatim>\<open>email\<close> unique and mark the string
  fields \<^verbatim>\<open>required\<close>, which rejects an empty string.
\<close>

definition round_trip :: "(db \<Rightarrow> (error + 'a) \<times> db) \<Rightarrow> 'a action" where
  "round_trip f d = (if next_fails d then (Inl StoreError, advance d) else f (advance d))"

definition Session_findById :: "string \<Rightarrow> session_doc option action" where
  "Session_findById sid = round_trip (\<lambda>d. (Inr (sessions d sid), d))"

definition Session_findByIdAndDelete :: "string \<Rightarrow> session_doc option action" where
  "Session_findByIdAndDelete sid =
     round_trip (\<lambda>d. (Inr (sessions d sid), d\<lparr>sessions := (sessions d)(sid := None)\<rparr>))"

definition Session_findByIdAndUpdate :: "string \<Rightarrow> int \<Rightarrow> int \<Rightarrow> session_doc option action" where
  "Session_findByIdAndUpdate sid a i =
     round_trip (\<lambda>d. case sessions d sid of
        None \<Rightarrow> (Inr None, d)
      | Some s \<Rightarrow> (Inr (Some s),
          d\<lparr>sessions := (sessions d)(sid \<mapsto> s\<lparr>active_expires := a, idle_expires := i\<rparr>)\<rparr>))"

definition Session_save :: "string \<Rightarrow> session_doc \<Rightarrow> unit action" where
  "Session_save sid s =
     round_trip (\<lambda>d.
        if sid = [] \<or> s_user_id s = [] then (Inl ValidationError, d)
        else if sessions d sid \<noteq> None then (Inl DuplicateKey, d)
        else (Inr (), d\<lparr>sessions := (sessions d)(sid \<mapsto> s)\<rparr>))"

definition Session_deleteMany :: "string \<Rightarrow> unit action" where
  "Session_deleteMany uid =
     round_trip (\<lambda>d. (Inr (),
        d\<lparr>sessions := (\<lambda>k. case sessions d k of
             None \<Rightarrow> None
           | Some s \<Rightarrow> if s_user_id s = uid then None else Some s)\<rparr>))"

definition User_findById :: "string \<Rightarrow> user_doc option action" where
  "User_findById uid = round_trip (\<lambda>d. (Inr (find (\<lambda>u. u_id u = uid) (users d)), d))"

definition User_findOne :: "string \<Rightarrow> user_doc option action" where
  "User_findOne e = round_trip (\<lambda>d. (Inr (find (\<lambda>u. u_email u = e) (users d)), d))"

definition User_create :: "user_doc \<Rightarrow> unit action" where
  "User_create u =
     round_trip (\<lambda>d.
        if u_id u = [] \<or> u_email u = [] \<or> u_hashed_password u = [] then (Inl ValidationError, d)
        else if find (\<lambda>v. u_id v = u_id u \<or> u_email v = u_email u) (users d) \<noteq> None
          then (Inl DuplicateKey, d)
        else (Inr (), d\<lparr>users := users d @ [u]\<rparr>))"

section \<open>Session service\<close>

record SessionUser =
  su_id :: string
  su_email :: string
  su_role :: string

record SessionData =
  sd_id :: string
  sd_userId :: string
  sd_expiresAt :: int

record validation =
  session :: "SessionData option"
  user :: "SessionUser option"

definition SESSION_DURATION :: int where
  "SESSION_DURATION = 1000 * 60 * 60 * 24 * 7"

definition no_identity :: validation where
  "no_identity = \<lparr>session = None, user = None\<rparr>"

text \<open>
  \<^verbatim>\<open>createSession\<close>: the token is the outcome of \<^verbatim>\<open>generateSessionId()\<close> and \<open>now\<close> the
  reading of \<^verbatim>\<open>Date.now()\<close>; both are inputs of the model.
\<close>

definition createSession :: "string \<Rightarrow> string \<Rightarrow> int \<Rightarrow> SessionData action" where
  "createSession userId sessionId now =
     (let expiresAt = now + SESSION_DURATION in
      await (Session_save sessionId
               \<lparr>s_user_id = userId, active_expires = expiresAt, idle_expires = expiresAt\<rparr>)
        (\<lambda>_. return \<lparr>sd_id = sessionId, sd_userId = userId, sd_expiresAt = expiresAt\<rparr>))"

text \<open>
  \<^verbatim>\<open>validateSession\<close> reads the clock three times: \<open>now1\<close> in the expiry test, \<open>now2\<close>
  for the remaining time and \<open>now3\<close> for the new expiry. \<open>validateSession_try\<close> is the body
  of its \<^verbatim>\<open>try\<close> block.
\<close>

definition validateSession_try :: "string \<Rightarrow> int \<Rightarrow> int \<Rightarrow> int \<Rightarrow> validation action" where
  "validateSession_try sessionId now1 now2 now3 =
     await (Session_findById sessionId) (\<lambda>found.
       case found of
         None \<Rightarrow> return no_identity
       | Some s \<Rightarrow>
           if active_expires s < now1
           then await (Session_findByIdAndDelete sessionId) (\<lambda>_. return no_identity)
           else await (User_findById (s_user_id s)) (\<lambda>owner.
             case owner of
               None \<Rightarrow> await (Session_findByIdAndDelete sessionId) (\<lambda>_. return no_identity)
             | Some u \<Rightarrow>
                 (let timeUntilExpiry = active_expires s - now2 in
                  await (if timeUntilExpiry < SESSION_DURATION div 2
                         then (let newExpiresAt = now3 + SESSION_DURATION in
                               await (Session_findByIdAndUpdate sessionId newExpiresAt newExpiresAt)
                                 (\<lambda>_. return ()))
                         else return ())
                    (\<lambda>_. return
                       \<lparr>session = Some \<lparr>sd_id = sessionId, sd_userId = s_user_id s,
                                        sd_expiresAt = active_expires s\<rparr>,
                        user = Some \<lparr>su_id = u_id u, su_email = u_email u,
                                     su_role = u_role u\<rparr>\<rparr>))))"

definition validateSession :: "string \<Rightarrow> int \<Rightarrow> int \<Rightarrow> int \<Rightarrow> validation action" where
  "validateSession sessionId now1 now2 now3 =
     (if sessionId = [] then return no_identity
      else try_catch (validateSession_try sessionId now1 now2 now3)
             (\<lambda>error. return no_identity))"

definition invalidateSession :: "string \<Rightarrow> unit action" where
  "invalidateSession sessionId = await (Session_findByIdAndDelete sessionId) (\<lambda>_. return ())"

definition invalidateAllUserSessions :: "string \<Rightarrow> unit action" where
  "invalidateAllUserSessions userId = Session_deleteMany userId"

record cookie_attributes =
  httpOnly :: bool
  secure :: bool
  sameSite :: string
  path :: string
  maxAge :: int

record cookie =
  name :: string
  val :: string
  attributes :: cookie_attributes

definition createSessionCookie :: "string \<Rightarrow> bool \<Rightarrow> cookie" where
  "createSessionCookie sessionId sec =
     \<lparr>name = ''session'', val = sessionId,
      attributes = \<lparr>httpOnly = True, secure = sec, sameSite = ''lax'', path = ''/'',
                    maxAge = SESSION_DURATION div 1000\<rparr>\<rparr>"

section \<open>Identity resolution and authorization gate\<close>

record request =
  cookies :: "(string \<rightharpoonup> string) option"
  req_user :: "SessionUser option"
  req_session :: "SessionData option"

text \<open>
  The \<^verbatim>\<open>preHandler\<close> hook of \<^verbatim>\<open>plugins/auth.ts\<close>. The validation call it awaits is an
  argument, so that the hook's own \<^verbatim>\<open>catch\<close> is defined for a callee that raises;
  \<open>preHandler_hook\<close> is the hook as installed, calling \<^verbatim>\<open>auth.validateSession\<close>.
\<close>

definition preHandler :: "(string \<Rightarrow> validation action) \<Rightarrow> request \<Rightarrow> request action" where
  "preHandler validate request =
     try_catch
       (let sessionId = (case cookies request of
                           None \<Rightarrow> []
                         | Some c \<Rightarrow> (case c ''session'' of None \<Rightarrow> [] | Some t \<Rightarrow> t))
        in if sessionId = []
           then return (request\<lparr>req_user := None, req_session := None\<rparr>)
           else await (validate sessionId) (\<lambda>r.
                  return (request\<lparr>req_user := user r, req_session := session r\<rparr>)))
       (\<lambda>error. return (request\<lparr>req_user := None, req_session := None\<rparr>))"

definition preHandler_hook :: "int \<Rightarrow> int \<Rightarrow> int \<Rightarrow> request \<Rightarrow> request action" where
  "preHandler_hook now1 now2 now3 =
     preHandler (\<lambda>sessionId. validateSession sessionId now1 now2 now3)"

datatype payload =
  ErrorBody string string
| UserBody string SessionUser

record reply =
  status :: nat
  body :: payload
  set_cookie :: "cookie option"

text \<open>
  \<^verbatim>\<open>requireAuth(roles)\<close>: the handler either sends a rejection or falls through
  (\<open>None\<close>), which lets the request continue.
\<close>

definition requireAuth :: "string list option \<Rightarrow> request \<Rightarrow> reply option" where
  "requireAuth roles request =
     (case req_user request of
        None \<Rightarrow>
          Some \<lparr>status = 401, body = ErrorBody ''Unauthorized'' ''Authentication required'',
                set_cookie = None\<rparr>
      | Some u \<Rightarrow>
          (case roles of
             None \<Rightarrow> None
           | Some rs \<Rightarrow>
               if length rs > 0 \<and> su_role u \<notin> set rs
               then Some \<lparr>status = 403, body = ErrorBody ''Forbidden'' ''Insufficient permissions'',
                          set_cookie = None\<rparr>
               else None))"

section \<open>Auth endpoints\<close>

text \<open>
  The password hasher is the external \<^verbatim>\<open>argon2\<close> package: \<open>hash\<close> and \<open>verify\<close> are
  arguments of the handlers, and either may raise. The generated user id and session
  token, the clock reading and the \<^verbatim>\<open>NODE_ENV === 'production'\<close> test are arguments too.
  A body field is \<open>None\<close> when the request omits it.
\<close>

definition lift :: "error + 'a \<Rightarrow> 'a action" where
  "lift r d = (r, d)"

definition falsy :: "string option \<Rightarrow> bool" where
  "falsy x = (case x of None \<Rightarrow> True | Some s \<Rightarrow> s = [])"

definition or_else :: "string option \<Rightarrow> string \<Rightarrow> string" where
  "or_else x dflt = (case x of None \<Rightarrow> dflt | Some s \<Rightarrow> if s = [] then dflt else s)"

record signup_body =
  sb_email :: "string option"
  sb_password :: "string option"
  sb_role :: "string option"

record login_body =
  lb_email :: "string option"
  lb_password :: "string option"

definition signup ::
  "(string \<Rightarrow> error + string) \<Rightarrow> string \<Rightarrow> string \<Rightarrow> int \<Rightarrow> bool \<Rightarrow> signup_body \<Rightarrow> reply action" where
  "signup hash userId sessionId now production req =
     try_catch
       (if falsy (sb_email req) \<or> falsy (sb_password req)
        then return \<lparr>status = 400,
                     body = ErrorBody ''Validation Error'' ''Email and password are required'',
                     set_cookie = None\<rparr>
        else
          (let email = or_else (sb_email req) []; password = or_else (sb_password req) [] in
           await (User_findOne email) (\<lambda>existing.
             case existing of
               Some _ \<Rightarrow> return \<lparr>status = 409,
                                  body = ErrorBody ''Conflict'' ''Email already in use'',
                                  set_cookie = None\<rparr>
             | None \<Rightarrow>
                 await (lift (hash password)) (\<lambda>hashed.
                 await (User_create \<lparr>u_id = userId, u_email = email, u_hashed_password = hashed,
                                     u_role = or_else (sb_role req) ''assistant''\<rparr>) (\<lambda>_.
                 await (createSession userId sessionId now) (\<lambda>session.
                 return \<lparr>status = 201,
                         body = UserBody ''User created successfully''
                                  \<lparr>su_id = userId, su_email = email,
                                   su_role = or_else (sb_role req) ''assistant''\<rparr>,
                         set_cookie = Some (createSessionCookie (sd_id session) production)\<rparr>))))))
       (\<lambda>error. return \<lparr>status = 500,
                         body = ErrorBody ''Internal Server Error'' ''Failed to create user'',
                         set_cookie = None\<rparr>)"

definition login ::
  "(string \<Rightarrow> string \<Rightarrow> error + bool) \<Rightarrow> string \<Rightarrow> int \<Rightarrow> bool \<Rightarrow> login_body \<Rightarrow> reply action" where
  "login verify sessionId now production req =
     try_catch
       (if falsy (lb_email req) \<or> falsy (lb_password req)
        then return \<lparr>status = 400,
                     body = ErrorBody ''Validation Error'' ''Email and password are required'',
                     set_cookie = None\<rparr>
        else
          (let email = or_else (lb_email req) []; password = or_else (lb_password req) [] in
           await (User_findOne email) (\<lambda>found.
             case found of
               None \<Rightarrow> return \<lparr>status = 401,
                                body = ErrorBody ''Unauthorized'' ''Invalid credentials'',
                                set_cookie = None\<rparr>
             | Some u \<Rightarrow>
                 await (lift (verify (u_hashed_password u) password)) (\<lambda>isValidPassword.
                   if \<not> isValidPassword
                   then return \<lparr>status = 401,
                                body = ErrorBody ''Unauthorized'' ''Invalid credentials'',
                                set_cookie = None\<rparr>
                   else
                     await (createSession (u_id u) sessionId now) (\<lambda>session.
                     return \<lparr>status = 200,
                             body = UserBody ''Logged in successfully''
                                      \<lparr>su_id = u_id u, su_email = u_email u, su_role = u_role u\<rparr>,
                             set_cookie = Some (createSessionCookie (sd_id session) production)\<rparr>)))))
       (\<lambda>error. return \<lparr>status = 500,
                         body = ErrorBody ''Internal Server Error'' ''Failed to login'',
                         set_cookie = None\<rparr>)"

section \<open>A small clinic store\<close>

text \<open>
  A concrete store for evaluating the operations: two users, the second with a stored
  hash the hasher cannot parse; a session of the first user and a session whose owner
  is no user of the store. The expiry of both sessions and the outage schedule are
  arguments.
\<close>

definition alice :: user_doc where
  "alice = \<lparr>u_id = ''u1'', u_email = ''a@x.com'', u_hashed_password = ''$p1'',
            u_role = ''doctor''\<rparr>"

definition mallory :: user_doc where
  "mallory = \<lparr>u_id = ''u2'', u_email = ''m@x.com'', u_hashed_password = ''malformed'',
              u_role = ''nurse''\<rparr>"

definition clinic :: "int \<Rightarrow> bool list \<Rightarrow> db" where
  "clinic expiry outages =
     \<lparr>users = [alice, mallory],
      sessions = [''t1'' \<mapsto> \<lparr>s_user_id = ''u1'', active_expires = expiry, idle_expires = expiry\<rparr>,
                  ''t9'' \<mapsto> \<lparr>s_user_id = ''gone'', active_expires = expiry, idle_expires = expiry\<rparr>],
      faults = outages\<rparr>"

definition toy_hash :: "string \<Rightarrow> error + string" where
  "toy_hash p = Inr (''$'' @ p)"

definition toy_verify :: "string \<Rightarrow> string \<Rightarrow> error + bool" where
  "toy_verify h p = (if h = ''malformed'' then Inl HashError else Inr (h = ''$'' @ p))"

section \<open>Basic facts about the store and the session service\<close>

lemma advance_fields [simp]:
  "sessions (advance d) = sessions d" "users (advance d) = users d"
  by (simp_all add: advance_def)

lemma healthy_next: "healthy d \<Longrightarrow> \<not> next_fails d"
  by (cases "faults d") (auto simp: healthy_def next_fails_def)

lemma healthy_advance: "healthy d \<Longrightarrow> healthy (advance d)"
  by (cases "faults d") (auto simp: healthy_def advance_def)

lemmas store_defs = Session_findById_def Session_findByIdAndDelete_def
  Session_findByIdAndUpdate_def Session_save_def Session_deleteMany_def
  User_findById_def User_findOne_def User_create_def

lemmas monad_defs = return_def throw_def await_def try_catch_def lift_def

lemmas clinic_defs = clinic_def alice_def mallory_def toy_hash_def toy_verify_def
  next_fails_def advance_def healthy_def round_trip_def SESSION_DURATION_def no_identity_def

lemmas eval_defs = validateSession_def validateSession_try_def monad_defs store_defs clinic_defs

lemma validateSession_total:
  "\<exists>v. fst (validateSession sid n1 n2 n3 d) = Inr v"
  by (auto simp: validateSession_def monad_defs split: prod.splits sum.splits)

lemma validateSession_valid:
  assumes "validateSession sid n1 n2 n3 d = (Inr v, d')" "session v \<noteq> None"
  shows "\<exists>s u. sessions d sid = Some s \<and> \<not> active_expires s < n1 \<and>
           find (\<lambda>u. u_id u = s_user_id s) (users d) = Some u \<and>
           v = \<lparr>session = Some \<lparr>sd_id = sid, sd_userId = s_user_id s,
                                 sd_expiresAt = active_expires s\<rparr>,
                 user = Some \<lparr>su_id = u_id u, su_email = u_email u, su_role = u_role u\<rparr>\<rparr> \<and>
           sessions d' = (if active_expires s - n2 < SESSION_DURATION div 2
              then (sessions d)(sid \<mapsto> s\<lparr>active_expires := n3 + SESSION_DURATION,
                                         idle_expires := n3 + SESSION_DURATION\<rparr>)
              else sessions d)"
  using assms
  by (auto simp: validateSession_def validateSession_try_def monad_defs store_defs
        round_trip_def no_identity_def Let_def
      split: prod.splits sum.splits option.splits if_splits)

lemma validateSession_sessions:
  "sessions (snd (validateSession sid n1 n2 n3 d)) k = sessions d k \<or>
   sessions (snd (validateSession sid n1 n2 n3 d)) k = None \<or>
   (\<exists>s. sessions d k = Some s \<and> active_expires s - n2 < SESSION_DURATION div 2 \<and>
        sessions (snd (validateSession sid n1 n2 n3 d)) k =
          Some (s\<lparr>active_expires := n3 + SESSION_DURATION,
                  idle_expires := n3 + SESSION_DURATION\<rparr>))"
  by (auto simp: validateSession_def validateSession_try_def monad_defs store_defs
        round_trip_def no_identity_def Let_def
      split: prod.splits sum.splits option.splits if_splits)

lemma createSession_sessions:
  "sessions d k = Some a \<Longrightarrow> sessions (snd (createSession uid tok now d)) k = Some a"
  by (auto simp: createSession_def monad_defs store_defs round_trip_def Let_def
      split: prod.splits sum.splits option.splits if_splits)

lemma invalidateSession_sessions:
  "sessions (snd (invalidateSession tok d)) k = Some b \<Longrightarrow> sessions d k = Some b"
  by (auto simp: invalidateSession_def monad_defs store_defs round_trip_def
      split: prod.splits sum.splits option.splits if_splits)

lemma invalidateAllUserSessions_sessions:
  "sessions (snd (invalidateAllUserSessions uid d)) k = Some b \<Longrightarrow> sessions d k = Some b"
  by (auto simp: invalidateAllUserSessions_def monad_defs store_defs round_trip_def
      split: prod.splits sum.splits option.splits if_splits)

section \<open>Sliding expiration\<close>

text \<open>
  C1. Let \<open>validateSession\<close> resolve a session (it returns a session object) on a clock
  that does not run backwards between its readings \<open>now2\<close> and \<open>now3\<close>. If more than half
  of the seven-day lifetime remained at \<open>now2\<close>, the stored record is unchanged; if less
  than half remained, the stored expiry becomes \<open>now3 + SESSION_DURATION\<close>, strictly later
  than before. Moreover no operation of the session service (\<open>validateSession\<close> with any
  outcome, \<open>createSession\<close>, \<open>invalidateSession\<close>, \<open>invalidateAllUserSessions\<close>) leaves a
  session in the store with an earlier expiry than it had.
\<close>

theorem session_expiry_only_moves_forward:
  assumes clock: "now2 \<le> now3"
  shows "(validateSession sid now1 now2 now3 d = (Inr v, d') \<and> session v \<noteq> None \<and>
            sessions d sid = Some s \<longrightarrow>
            (SESSION_DURATION div 2 < active_expires s - now2 \<longrightarrow> sessions d' sid = Some s) \<and>
            (active_expires s - now2 < SESSION_DURATION div 2 \<longrightarrow>
               (\<exists>s'. sessions d' sid = Some s' \<and>
                     active_expires s' = now3 + SESSION_DURATION \<and>
                     active_expires s < active_expires s')))
       \<and> (sessions d k = Some a \<and>
            sessions (snd (validateSession sid now1 now2 now3 d)) k = Some b \<longrightarrow>
            active_expires a \<le> active_expires b)
       \<and> (sessions d k = Some a \<and> sessions (snd (createSession uid tok now d)) k = Some b \<longrightarrow>
            active_expires a \<le> active_expires b)
       \<and> (sessions d k = Some a \<and> sessions (snd (invalidateSession tok d)) k = Some b \<longrightarrow>
            active_expires a \<le> active_expires b)
       \<and> (sessions d k = Some a \<and> sessions (snd (invalidateAllUserSessions uid d)) k = Some b \<longrightarrow>
            active_expires a \<le> active_expires b)"
proof (intro conjI impI)
  assume h: "validateSession sid now1 now2 now3 d = (Inr v, d') \<and> session v \<noteq> None \<and>
            sessions d sid = Some s"
  from validateSession_valid [of sid now1 now2 now3 d v d'] h
  have upd: "sessions d' = (if active_expires s - now2 < SESSION_DURATION div 2
              then (sessions d)(sid \<mapsto> s\<lparr>active_expires := now3 + SESSION_DURATION,
                                         idle_expires := now3 + SESSION_DURATION\<rparr>)
              else sessions d)"
    by auto
  {
    assume "SESSION_DURATION div 2 < active_expires s - now2"
    with upd h show "sessions d' sid = Some s" by simp
  }
  {
    assume low: "active_expires s - now2 < SESSION_DURATION div 2"
    have "active_expires s < now3 + SESSION_DURATION"
      using low clock by (simp add: SESSION_DURATION_def)
    with upd low show "\<exists>s'. sessions d' sid = Some s' \<and>
                     active_expires s' = now3 + SESSION_DURATION \<and>
                     active_expires s < active_expires s'"
      by simp
  }
next
  assume h: "sessions d k = Some a \<and>
            sessions (snd (validateSession sid now1 now2 now3 d)) k = Some b"
  from validateSession_sessions [of sid now1 now2 now3 d k] h clock
  show "active_expires a \<le> active_expires b"
    by (auto simp: SESSION_DURATION_def)
next
  assume "sessions d k = Some a \<and> sessions (snd (createSession uid tok now d)) k = Some b"
  then show "active_expires a \<le> active_expires b"
    using createSession_sessions [of d k a uid tok now] by simp
next
  assume "sessions d k = Some a \<and> sessions (snd (invalidateSession tok d)) k = Some b"
  then show "active_expires a \<le> active_expires b"
    using invalidateSession_sessions [of tok d k b] by simp
next
  assume "sessions d k = Some a \<and> sessions (snd (invalidateAllUserSessions uid d)) k = Some b"
  then show "active_expires a \<le> active_expires b"
    using invalidateAllUserSessions_sessions [of uid d k b] by simp
qed

theorem session_expiry_only_moves_forward_witness:
  "(1000::int) \<le> 1000 \<and>
   (\<exists>s'. sessions (snd (validateSession ''t1'' 1000 1000 1000 (clinic 5000 []))) ''t1'' = Some s' \<and>
         active_expires s' = 1000 + SESSION_DURATION \<and> 5000 < active_expires s')"
proof -
  let ?d = "clinic 5000 []"
  let ?v = "\<lparr>session = Some \<lparr>sd_id = ''t1'', sd_userId = ''u1'', sd_expiresAt = 5000\<rparr>,
        user = Some \<lparr>su_id = ''u1'', su_email = ''a@x.com'', su_role = ''doctor''\<rparr>\<rparr>"
  let ?s = "\<lparr>s_user_id = ''u1'', active_expires = 5000, idle_expires = 5000\<rparr>"
  have clock: "(1000::int) \<le> 1000" by simp
  have "fst (validateSession ''t1'' 1000 1000 1000 ?d) = Inr ?v"
    by (simp add: eval_defs)
  then have run: "validateSession ''t1'' 1000 1000 1000 ?d =
      (Inr ?v, snd (validateSession ''t1'' 1000 1000 1000 ?d))"
    by (simp add: prod_eq_iff)
  have stored: "sessions ?d ''t1'' = Some ?s" by (simp add: clinic_def)
  have low: "active_expires ?s - 1000 < SESSION_DURATION div 2"
    by (simp add: SESSION_DURATION_def)
  from session_expiry_only_moves_forward [OF clock, where sid = "''t1''" and ?now1.0 = 1000
      and d = ?d and v = ?v and d' = "snd (validateSession ''t1'' 1000 1000 1000 ?d)" and s = ?s]
    run stored low
  show ?thesis by simp
qed

section \<open>Expired and orphaned sessions\<close>

lemma validateSession_expired:
  assumes "sid \<noteq> []" "sessions d sid = Some s" "active_expires s < now1"
  shows "validateSession sid now1 now2 now3 d =
     (Inr no_identity,
      if next_fails d then advance d
      else if next_fails (advance d) then advance (advance d)
      else (advance (advance d))\<lparr>sessions := (sessions d)(sid := None)\<rparr>)"
  using assms
  by (simp add: validateSession_def validateSession_try_def monad_defs store_defs round_trip_def)

lemma validateSession_absent:
  assumes "sessions d sid = None"
  shows "fst (validateSession sid now1 now2 now3 d) = Inr no_identity"
    and "sessions (snd (validateSession sid now1 now2 now3 d)) = sessions d"
  using assms
  by (simp_all add: validateSession_def validateSession_try_def monad_defs store_defs round_trip_def)

text \<open>
  C2, as stated, fails at the boundary: the code's expiry test rejects a session only
  when \<^verbatim>\<open>active_expires < Date.now()\<close>. In the store below the session \<open>t1\<close> has its
  expiry equal to the current time, its owner exists and the store is up: the session is
  not rejected and its record is still in the store afterwards.
\<close>

theorem expiry_equal_to_now_counterexample:
  "sessions (clinic 1000 []) ''t1'' =
     Some \<lparr>s_user_id = ''u1'', active_expires = 1000, idle_expires = 1000\<rparr> \<and>
   fst (validateSession ''t1'' 1000 1000 1000 (clinic 1000 [])) \<noteq> Inr no_identity \<and>
   sessions (snd (validateSession ''t1'' 1000 1000 1000 (clinic 1000 []))) ''t1'' \<noteq> None"
  by (simp add: eval_defs)

text \<open>
  C2, amended. For every non-empty token whose stored session has its expiry strictly
  before the current time \<open>now1\<close>, on a store whose operations succeed, \<open>validateSession\<close>
  returns \<open>{null, null}\<close> and removes exactly that record; a second \<open>validateSession\<close> of the
  same token, at any clock readings, again returns \<open>{null, null}\<close> and the session stays
  absent.
\<close>

theorem expired_session_rejected_and_evicted:
  assumes "sid \<noteq> []" and "healthy d" and "sessions d sid = Some s"
    and "active_expires s < now1"
  shows "fst (validateSession sid now1 now2 now3 d) = Inr no_identity \<and>
         sessions (snd (validateSession sid now1 now2 now3 d)) = (sessions d)(sid := None) \<and>
         fst (validateSession sid later1 later2 later3
                (snd (validateSession sid now1 now2 now3 d))) = Inr no_identity \<and>
         sessions (snd (validateSession sid later1 later2 later3
                (snd (validateSession sid now1 now2 now3 d)))) sid = None"
proof -
  let ?d' = "snd (validateSession sid now1 now2 now3 d)"
  have up: "\<not> next_fails d" "\<not> next_fails (advance d)"
    using assms(2) by (simp_all add: healthy_next healthy_advance)
  have run: "validateSession sid now1 now2 now3 d =
      (Inr no_identity, (advance (advance d))\<lparr>sessions := (sessions d)(sid := None)\<rparr>)"
    using validateSession_expired [OF assms(1,3,4)] up by simp
  then have gone: "sessions ?d' sid = None" by simp
  show ?thesis
    using run validateSession_absent [OF gone] by simp
qed

theorem expired_session_rejected_and_evicted_witness:
  "fst (validateSession ''t1'' 1000 1000 1000 (clinic 999 [])) = Inr no_identity \<and>
   sessions (snd (validateSession ''t1'' 1000 1000 1000 (clinic 999 []))) ''t1'' = None \<and>
   fst (validateSession ''t1'' 2000 2000 2000
          (snd (validateSession ''t1'' 1000 1000 1000 (clinic 999 [])))) = Inr no_identity"
proof -
  let ?s = "\<lparr>s_user_id = ''u1'', active_expires = 999, idle_expires = 999\<rparr>"
  have a: "''t1'' \<noteq> []" by simp
  have b: "healthy (clinic 999 [])" by (simp add: clinic_defs)
  have c: "sessions (clinic 999 []) ''t1'' = Some ?s" by (simp add: clinic_def)
  have e: "active_expires ?s < 1000" by simp
  from expired_session_rejected_and_evicted [OF a b c e, of 1000 1000 2000 2000 2000]
  show ?thesis by simp
qed

text \<open>
  C6. For every non-empty token whose session record exists and is not expired at \<open>now1\<close>
  but whose \<^verbatim>\<open>user_id\<close> names no user of the store, on a store whose operations succeed,
  \<open>validateSession\<close> returns \<open>{null, null}\<close> and removes exactly that record.
\<close>

theorem orphaned_session_is_deleted:
  assumes "sid \<noteq> []" and "healthy d" and "sessions d sid = Some s"
    and "now1 \<le> active_expires s"
    and "find (\<lambda>u. u_id u = s_user_id s) (users d) = None"
  shows "fst (validateSession sid now1 now2 now3 d) = Inr no_identity \<and>
         sessions (snd (validateSession sid now1 now2 now3 d)) = (sessions d)(sid := None)"
proof -
  have up: "\<not> next_fails d" "\<not> next_fails (advance d)" "\<not> next_fails (advance (advance d))"
    using assms(2) by (simp_all add: healthy_next healthy_advance)
  show ?thesis
    using assms(1,3,4,5) up
    by (simp add: validateSession_def validateSession_try_def monad_defs store_defs round_trip_def)
qed

theorem orphaned_session_is_deleted_witness:
  "fst (validateSession ''t9'' 1000 1000 1000 (clinic 5000 [])) = Inr no_identity \<and>
   sessions (snd (validateSession ''t9'' 1000 1000 1000 (clinic 5000 []))) ''t9'' = None"
proof -
  let ?s = "\<lparr>s_user_id = ''gone'', active_expires = 5000, idle_expires = 5000\<rparr>"
  have a: "''t9'' \<noteq> []" by simp
  have b: "healthy (clinic 5000 [])" by (simp add: clinic_defs)
  have c: "sessions (clinic 5000 []) ''t9'' = Some ?s" by (simp add: clinic_def)
  have e: "1000 \<le> active_expires ?s" by simp
  have f: "find (\<lambda>u. u_id u = s_user_id ?s) (users (clinic 5000 [])) = None"
    by (simp add: clinic_defs)
  from orphaned_session_is_deleted [OF a b c e f, of 1000 1000]
  show ?thesis by simp
qed

section \<open>Stale expiry in the returned session\<close>

text \<open>
  C9. Whenever \<open>validateSession\<close> resolves a session, the session object it returns
  carries the expiry of the record as read before any update. In the extension case
  (less than half the lifetime remained at \<open>now2\<close>) the store then holds
  \<open>now3 + SESSION_DURATION\<close>, strictly later than the returned expiry, on a clock that does
  not run backwards; in the other case the stored and the returned expiry agree.
\<close>

theorem returned_expiry_is_stale_when_extended:
  assumes "validateSession sid now1 now2 now3 d = (Inr v, d')"
    and "session v = Some sd" and "sessions d sid = Some s" and "now2 \<le> now3"
  shows "sd_expiresAt sd = active_expires s \<and>
         (active_expires s - now2 < SESSION_DURATION div 2 \<longrightarrow>
            (\<exists>s'. sessions d' sid = Some s' \<and> active_expires s' = now3 + SESSION_DURATION \<and>
                  sd_expiresAt sd < active_expires s')) \<and>
         (\<not> active_expires s - now2 < SESSION_DURATION div 2 \<longrightarrow>
            (\<exists>s'. sessions d' sid = Some s' \<and> active_expires s' = sd_expiresAt sd))"
proof -
  from validateSession_valid [OF assms(1)] assms(2,3)
  have v: "sd = \<lparr>sd_id = sid, sd_userId = s_user_id s, sd_expiresAt = active_expires s\<rparr>"
    and upd: "sessions d' = (if active_expires s - now2 < SESSION_DURATION div 2
              then (sessions d)(sid \<mapsto> s\<lparr>active_expires := now3 + SESSION_DURATION,
                                         idle_expires := now3 + SESSION_DURATION\<rparr>)
              else sessions d)"
    by auto
  have "active_expires s - now2 < SESSION_DURATION div 2 \<Longrightarrow>
        active_expires s < now3 + SESSION_DURATION"
    using assms(4) by (simp add: SESSION_DURATION_def)
  with v upd assms(3) show ?thesis by auto
qed

theorem returned_expiry_is_stale_when_extended_witness:
  "\<exists>sd s'. session (projr (fst (validateSession ''t1'' 1000 1000 1000 (clinic 5000 [])))) = Some sd \<and>
     sessions (snd (validateSession ''t1'' 1000 1000 1000 (clinic 5000 []))) ''t1'' = Some s' \<and>
     sd_expiresAt sd = 5000 \<and> active_expires s' = 1000 + SESSION_DURATION \<and>
     sd_expiresAt sd < active_expires s'"
proof -
  let ?d = "clinic 5000 []"
  let ?sd = "\<lparr>sd_id = ''t1'', sd_userId = ''u1'', sd_expiresAt = 5000\<rparr>"
  let ?v = "\<lparr>session = Some ?sd,
        user = Some \<lparr>su_id = ''u1'', su_email = ''a@x.com'', su_role = ''doctor''\<rparr>\<rparr>"
  let ?s = "\<lparr>s_user_id = ''u1'', active_expires = 5000, idle_expires = 5000\<rparr>"
  have ev: "fst (validateSession ''t1'' 1000 1000 1000 ?d) = Inr ?v"
    by (simp add: eval_defs)
  then have run: "validateSession ''t1'' 1000 1000 1000 ?d =
      (Inr ?v, snd (validateSession ''t1'' 1000 1000 1000 ?d))"
    by (simp add: prod_eq_iff)
  have got: "session ?v = Some ?sd" by simp
  have stored: "sessions ?d ''t1'' = Some ?s" by (simp add: clinic_def)
  have clock: "(1000::int) \<le> 1000" by simp
  have low: "active_expires ?s - 1000 < SESSION_DURATION div 2"
    by (simp add: SESSION_DURATION_def)
  from returned_expiry_is_stale_when_extended [OF run got stored clock] low ev
  show ?thesis by simp
qed

section \<open>Log out everywhere\<close>

text \<open>
  C8. For every user id \<open>u\<close> and every store whose next operation succeeds,
  \<open>invalidateAllUserSessions u\<close> completes and removes exactly the sessions owned by \<open>u\<close>:
  no session left in the store is owned by \<open>u\<close>, every session of \<open>u\<close> is gone, every
  session of another owner is unchanged, no session appears, and the users are
  untouched.
\<close>

theorem invalidateAllUserSessions_removes_exactly_owned:
  assumes "\<not> next_fails d"
  shows "fst (invalidateAllUserSessions u d) = Inr () \<and>
         (sessions (snd (invalidateAllUserSessions u d)) k = Some s \<longrightarrow> s_user_id s \<noteq> u) \<and>
         (sessions d k = Some s \<and> s_user_id s = u \<longrightarrow>
            sessions (snd (invalidateAllUserSessions u d)) k = None) \<and>
         (sessions d k = Some s \<and> s_user_id s \<noteq> u \<longrightarrow>
            sessions (snd (invalidateAllUserSessions u d)) k = Some s) \<and>
         (sessions d k = None \<longrightarrow> sessions (snd (invalidateAllUserSessions u d)) k = None) \<and>
         users (snd (invalidateAllUserSessions u d)) = users d"
  using assms
  by (auto simp: invalidateAllUserSessions_def Session_deleteMany_def round_trip_def
      split: option.splits if_splits)

theorem invalidateAllUserSessions_removes_exactly_owned_witness:
  "fst (invalidateAllUserSessions ''u1'' (clinic 5000 [])) = Inr () \<and>
   sessions (snd (invalidateAllUserSessions ''u1'' (clinic 5000 []))) ''t1'' = None \<and>
   sessions (snd (invalidateAllUserSessions ''u1'' (clinic 5000 []))) ''t9'' =
     Some \<lparr>s_user_id = ''gone'', active_expires = 5000, idle_expires = 5000\<rparr>"
proof -
  have up: "\<not> next_fails (clinic 5000 [])" by (simp add: clinic_defs)
  have s1: "sessions (clinic 5000 []) ''t1'' =
      Some \<lparr>s_user_id = ''u1'', active_expires = 5000, idle_expires = 5000\<rparr>"
    by (simp add: clinic_def)
  have s9: "sessions (clinic 5000 []) ''t9'' =
      Some \<lparr>s_user_id = ''gone'', active_expires = 5000, idle_expires = 5000\<rparr>"
    by (simp add: clinic_def)
  from invalidateAllUserSessions_removes_exactly_owned [OF up, of "''u1''" "''t1''"
         "\<lparr>s_user_id = ''u1'', active_expires = 5000, idle_expires = 5000\<rparr>"]
       invalidateAllUserSessions_removes_exactly_owned [OF up, of "''u1''" "''t9''"
         "\<lparr>s_user_id = ''gone'', active_expires = 5000, idle_expires = 5000\<rparr>"]
       s1 s9
  show ?thesis by simp
qed

section \<open>Authorization gate\<close>

text \<open>
  C7. \<open>requireAuth\<close> decides from the resolved identity and the required roles alone: it
  is a function of the role list and the request, takes no store and returns none, and two
  requests with the same \<^verbatim>\<open>user\<close> get the same decision. With no identity it rejects with
  401 "Authentication required"; with an identity and a non-empty role list that does not
  contain the identity's role it rejects with 403 "Insufficient permissions"; with an
  identity and an absent or empty role list, or a list containing the role, it lets the
  request through.
\<close>

theorem requireAuth_decision:
  "(req_user request = None \<longrightarrow>
      requireAuth roles request =
        Some \<lparr>status = 401, body = ErrorBody ''Unauthorized'' ''Authentication required'',
              set_cookie = None\<rparr>) \<and>
   (req_user request = Some u \<and> roles = Some rs \<and> rs \<noteq> [] \<and> su_role u \<notin> set rs \<longrightarrow>
      requireAuth roles request =
        Some \<lparr>status = 403, body = ErrorBody ''Forbidden'' ''Insufficient permissions'',
              set_cookie = None\<rparr>) \<and>
   (req_user request = Some u \<and>
      (roles = None \<or> roles = Some [] \<or> (\<exists>rs. roles = Some rs \<and> su_role u \<in> set rs)) \<longrightarrow>
      requireAuth roles request = None) \<and>
   (req_user request = req_user request' \<longrightarrow>
      requireAuth roles request = requireAuth roles request')"
  by (auto simp: requireAuth_def split: option.splits)

theorem requireAuth_decision_witness:
  "requireAuth (Some [''admin'']) \<lparr>cookies = None, req_user = None, req_session = None\<rparr> =
     Some \<lparr>status = 401, body = ErrorBody ''Unauthorized'' ''Authentication required'',
           set_cookie = None\<rparr> \<and>
   requireAuth (Some [''admin'', ''doctor''])
     \<lparr>cookies = None,
      req_user = Some \<lparr>su_id = ''u2'', su_email = ''m@x.com'', su_role = ''nurse''\<rparr>,
      req_session = None\<rparr> =
     Some \<lparr>status = 403, body = ErrorBody ''Forbidden'' ''Insufficient permissions'',
           set_cookie = None\<rparr> \<and>
   requireAuth (Some [])
     \<lparr>cookies = None,
      req_user = Some \<lparr>su_id = ''u2'', su_email = ''m@x.com'', su_role = ''nurse''\<rparr>,
      req_session = None\<rparr> = None"
proof -
  let ?anon = "\<lparr>cookies = None, req_user = None, req_session = None\<rparr>"
  let ?u = "\<lparr>su_id = ''u2'', su_email = ''m@x.com'', su_role = ''nurse''\<rparr>"
  let ?nurse = "\<lparr>cookies = None, req_user = Some ?u, req_session = None\<rparr>"
  from requireAuth_decision [of ?anon "Some [''admin'']" ?u "[''admin'']" ?anon]
       requireAuth_decision [of ?nurse "Some [''admin'', ''doctor'']" ?u "[''admin'', ''doctor'']" ?nurse]
       requireAuth_decision [of ?nurse "Some []" ?u "[]" ?nurse]
  show ?thesis by simp
qed

section \<open>Faults of the auth subsystem degrade to anonymous\<close>

lemma preHandler_total: "\<exists>r. fst (preHandler validate request d) = Inr r"
  by (auto simp: preHandler_def monad_defs Let_def split: prod.splits sum.splits)

lemma validateSession_try_error:
  "fst (validateSession_try sid now1 now2 now3 d) = Inl e \<Longrightarrow> e = StoreError"
  by (auto simp: validateSession_try_def monad_defs store_defs round_trip_def Let_def
      split: prod.splits sum.splits option.splits if_splits)

lemma validateSession_try_down:
  "next_fails d \<Longrightarrow> validateSession_try sid now1 now2 now3 d = (Inl StoreError, advance d)"
  by (simp add: validateSession_try_def monad_defs store_defs round_trip_def)

lemma validateSession_caught:
  "fst (validateSession_try sid now1 now2 now3 d) = Inl e \<Longrightarrow>
   fst (validateSession sid now1 now2 now3 d) = Inr no_identity"
  by (auto simp: validateSession_def monad_defs split: prod.splits sum.splits)

text \<open>
  C3. \<open>validateSession\<close> never propagates an error, for any token and store. Whenever
  its \<^verbatim>\<open>try\<close> block raises, which only a store operation can make it do (the error is a
  \<open>StoreError\<close>), it returns \<open>{null, null}\<close>; in particular when the store is down at the
  first round trip. The \<^verbatim>\<open>preHandler\<close> hook never raises either, whatever validation
  function it calls: if the call raises for the cookie's token, the request continues with
  \<^verbatim>\<open>user\<close> and \<^verbatim>\<open>session\<close> set to none, and so it does for the installed hook when a
  store operation raises during \<open>validateSession\<close>.
\<close>

theorem validation_faults_degrade_to_anonymous:
  "(\<exists>v. fst (validateSession sid now1 now2 now3 d) = Inr v) \<and>
   (fst (validateSession_try sid now1 now2 now3 d) = Inl e \<longrightarrow>
      e = StoreError \<and> fst (validateSession sid now1 now2 now3 d) = Inr no_identity) \<and>
   (next_fails d \<longrightarrow>
      fst (validateSession_try sid now1 now2 now3 d) = Inl StoreError \<and>
      fst (validateSession sid now1 now2 now3 d) = Inr no_identity) \<and>
   (\<exists>r. fst (preHandler validate request d) = Inr r) \<and>
   (cookies request = Some c \<and> c ''session'' = Some t \<and> fst (validate t d) = Inl e' \<longrightarrow>
      fst (preHandler validate request d) =
        Inr (request\<lparr>req_user := None, req_session := None\<rparr>)) \<and>
   (cookies request = Some c \<and> c ''session'' = Some t \<and>
      fst (validateSession_try t now1 now2 now3 d) = Inl e \<longrightarrow>
      fst (preHandler_hook now1 now2 now3 request d) =
        Inr (request\<lparr>req_user := None, req_session := None\<rparr>))"
proof (intro conjI impI)
  show "\<exists>v. fst (validateSession sid now1 now2 now3 d) = Inr v"
    by (rule validateSession_total)
  show "\<exists>r. fst (preHandler validate request d) = Inr r"
    by (rule preHandler_total)
next
  assume "fst (validateSession_try sid now1 now2 now3 d) = Inl e"
  then show "e = StoreError" "fst (validateSession sid now1 now2 now3 d) = Inr no_identity"
    by (simp_all add: validateSession_try_error validateSession_caught)
next
  assume down: "next_fails d"
  then show "fst (validateSession_try sid now1 now2 now3 d) = Inl StoreError"
    by (simp add: validateSession_try_down)
  then show "fst (validateSession sid now1 now2 now3 d) = Inr no_identity"
    by (rule validateSession_caught)
next
  assume "cookies request = Some c \<and> c ''session'' = Some t \<and> fst (validate t d) = Inl e'"
  then show "fst (preHandler validate request d) =
        Inr (request\<lparr>req_user := None, req_session := None\<rparr>)"
    by (auto simp: preHandler_def monad_defs split: prod.splits sum.splits)
next
  assume h: "cookies request = Some c \<and> c ''session'' = Some t \<and>
      fst (validateSession_try t now1 now2 now3 d) = Inl e"
  then have "fst (validateSession t now1 now2 now3 d) = Inr no_identity"
    by (simp add: validateSession_caught)
  with h show "fst (preHandler_hook now1 now2 now3 request d) =
        Inr (request\<lparr>req_user := None, req_session := None\<rparr>)"
    by (auto simp: preHandler_hook_def preHandler_def monad_defs no_identity_def
        split: prod.splits sum.splits)
qed

theorem validation_faults_degrade_to_anonymous_witness:
  "fst (validateSession_try ''t1'' 1000 1000 1000 (clinic 5000 [False, False, True])) = Inl StoreError \<and>
   fst (validateSession ''t1'' 1000 1000 1000 (clinic 5000 [False, False, True])) = Inr no_identity \<and>
   fst (validateSession ''t1'' 1000 1000 1000 (clinic 5000 [True])) = Inr no_identity \<and>
   fst (preHandler (\<lambda>t. throw StoreError)
          \<lparr>cookies = Some [''session'' \<mapsto> ''t1''], req_user = None, req_session = None\<rparr>
          (clinic 5000 [])) =
     Inr \<lparr>cookies = Some [''session'' \<mapsto> ''t1''], req_user = None, req_session = None\<rparr> \<and>
   fst (preHandler_hook 1000 1000 1000
          \<lparr>cookies = Some [''session'' \<mapsto> ''t1''], req_user = None, req_session = None\<rparr>
          (clinic 5000 [False, False, True])) =
     Inr \<lparr>cookies = Some [''session'' \<mapsto> ''t1''], req_user = None, req_session = None\<rparr>"
proof -
  let ?d = "clinic 5000 [False, False, True]"
  let ?req = "\<lparr>cookies = Some [''session'' \<mapsto> ''t1''], req_user = None, req_session = None\<rparr>"
  let ?none = "Inr ?req :: error + request"
  have late: "fst (validateSession_try ''t1'' 1000 1000 1000 ?d) = Inl StoreError"
    by (simp add: eval_defs)
  have down: "next_fails (clinic 5000 [True])" by (simp add: clinic_defs)
  have thrown: "fst ((throw StoreError :: validation action) (clinic 5000 [])) = Inl StoreError"
    by (simp add: throw_def)
  have a: "fst (validateSession ''t1'' 1000 1000 1000 ?d) = Inr no_identity"
    and e: "fst (preHandler_hook 1000 1000 1000 ?req ?d) = ?none"
    using late validation_faults_degrade_to_anonymous [of "''t1''" 1000 1000 1000 ?d StoreError
         "\<lambda>t. throw StoreError" ?req "[''session'' \<mapsto> ''t1'']" "''t1''" StoreError]
    by simp_all
  have b: "fst (validateSession ''t1'' 1000 1000 1000 (clinic 5000 [True])) = Inr no_identity"
    using down validation_faults_degrade_to_anonymous [of "''t1''" 1000 1000 1000
         "clinic 5000 [True]" StoreError "\<lambda>t. throw StoreError" ?req
         "[''session'' \<mapsto> ''t1'']" "''t1''" StoreError]
    by simp
  have c: "fst (preHandler (\<lambda>t. throw StoreError) ?req (clinic 5000 [])) = ?none"
    using thrown validation_faults_degrade_to_anonymous [of "''t1''" 1000 1000 1000
         "clinic 5000 []" StoreError "\<lambda>t. throw StoreError" ?req "[''session'' \<mapsto> ''t1'']"
         "''t1''" StoreError]
    by simp
  from late a b c e show ?thesis by simp
qed

section \<open>Login\<close>

lemmas login_eval = login_def monad_defs store_defs clinic_defs falsy_def or_else_def

lemma login_unknown_email:
  assumes "lb_email r = Some e" "e \<noteq> []" "lb_password r = Some p" "p \<noteq> []"
    and "\<not> next_fails d" and "find (\<lambda>u. u_email u = e) (users d) = None"
  shows "login verify sid now sec r d =
     (Inr \<lparr>status = 401, body = ErrorBody ''Unauthorized'' ''Invalid credentials'',
           set_cookie = None\<rparr>, advance d)"
  using assms
  by (simp add: login_def monad_defs User_findOne_def round_trip_def falsy_def or_else_def)

lemma login_wrong_password:
  assumes "lb_email r = Some e" "e \<noteq> []" "lb_password r = Some p" "p \<noteq> []"
    and "\<not> next_fails d" and "find (\<lambda>u. u_email u = e) (users d) = Some u"
    and "verify (u_hashed_password u) p = Inr False"
  shows "login verify sid now sec r d =
     (Inr \<lparr>status = 401, body = ErrorBody ''Unauthorized'' ''Invalid credentials'',
           set_cookie = None\<rparr>, advance d)"
  using assms
  by (simp add: login_def monad_defs User_findOne_def round_trip_def falsy_def or_else_def)

lemma login_verify_raises:
  assumes "lb_email r = Some e" "e \<noteq> []" "lb_password r = Some p" "p \<noteq> []"
    and "\<not> next_fails d" and "find (\<lambda>u. u_email u = e) (users d) = Some u"
    and "verify (u_hashed_password u) p = Inl err"
  shows "login verify sid now sec r d =
     (Inr \<lparr>status = 500, body = ErrorBody ''Internal Server Error'' ''Failed to login'',
           set_cookie = None\<rparr>, advance d)"
  using assms
  by (simp add: login_def monad_defs User_findOne_def round_trip_def falsy_def or_else_def)

text \<open>
  C4. Take two login requests that both carry a non-empty email and password, each served
  by a store whose lookup succeeds: one whose email belongs to no user, and one whose email
  belongs to a user but whose password the hasher's \<open>verify\<close> rejects. Their responses are
  identical: status 401, body \<open>{error: 'Unauthorized', message: 'Invalid credentials'}\<close>,
  no cookie.
\<close>

theorem login_does_not_reveal_unknown_email:
  assumes "lb_email r1 = Some e1" "e1 \<noteq> []" "lb_password r1 = Some p1" "p1 \<noteq> []"
    and "lb_email r2 = Some e2" "e2 \<noteq> []" "lb_password r2 = Some p2" "p2 \<noteq> []"
    and "\<not> next_fails d1" and "\<not> next_fails d2"
    and "find (\<lambda>u. u_email u = e1) (users d1) = None"
    and "find (\<lambda>u. u_email u = e2) (users d2) = Some u"
    and "verify (u_hashed_password u) p2 = Inr False"
  shows "fst (login verify sid1 now1 secure1 r1 d1) = fst (login verify sid2 now2 secure2 r2 d2) \<and>
         fst (login verify sid1 now1 secure1 r1 d1) =
           Inr \<lparr>status = 401, body = ErrorBody ''Unauthorized'' ''Invalid credentials'',
                 set_cookie = None\<rparr>"
  using login_unknown_email [OF assms(1-4) assms(9) assms(11), of verify sid1 now1 secure1]
    login_wrong_password [where verify = verify, OF assms(5-8) assms(10) assms(12) assms(13),
      of sid2 now2 secure2]
  by simp

theorem login_does_not_reveal_unknown_email_witness:
  "fst (login toy_verify ''n1'' 1000 False
          \<lparr>lb_email = Some ''nouser@x.com'', lb_password = Some ''anything''\<rparr> (clinic 5000 [])) =
   fst (login toy_verify ''n2'' 2000 False
          \<lparr>lb_email = Some ''a@x.com'', lb_password = Some ''wrong''\<rparr> (clinic 5000 [])) \<and>
   fst (login toy_verify ''n1'' 1000 False
          \<lparr>lb_email = Some ''nouser@x.com'', lb_password = Some ''anything''\<rparr> (clinic 5000 [])) =
     Inr \<lparr>status = 401, body = ErrorBody ''Unauthorized'' ''Invalid credentials'',
           set_cookie = None\<rparr>"
proof -
  let ?r1 = "\<lparr>lb_email = Some ''nouser@x.com'', lb_password = Some ''anything''\<rparr>"
  let ?r2 = "\<lparr>lb_email = Some ''a@x.com'', lb_password = Some ''wrong''\<rparr>"
  let ?d = "clinic 5000 []"
  have e1: "lb_email ?r1 = Some ''nouser@x.com''" "''nouser@x.com'' \<noteq> []"
    and p1: "lb_password ?r1 = Some ''anything''" "''anything'' \<noteq> []"
    and e2: "lb_email ?r2 = Some ''a@x.com''" "''a@x.com'' \<noteq> []"
    and p2: "lb_password ?r2 = Some ''wrong''" "''wrong'' \<noteq> []"
    by simp_all
  have up: "\<not> next_fails ?d" by (simp add: clinic_defs)
  have unknown: "find (\<lambda>u. u_email u = ''nouser@x.com'') (users ?d) = None"
    by (simp add: clinic_defs)
  have known: "find (\<lambda>u. u_email u = ''a@x.com'') (users ?d) = Some alice"
    by (simp add: clinic_defs)
  have wrong: "toy_verify (u_hashed_password alice) ''wrong'' = Inr False"
    by (simp add: clinic_defs)
  show ?thesis
    by (rule login_does_not_reveal_unknown_email [where verify = toy_verify,
          OF e1 p1 e2 p2 up up unknown known wrong])
qed

text \<open>
  C5, as stated, fails: when \<open>verify\<close> raises on the stored hash, the handler's
  catch-all answers 500, not the 401 rejection.
\<close>

theorem malformed_hash_login_counterexample:
  "find (\<lambda>u. u_email u = ''m@x.com'') (users (clinic 5000 [])) = Some mallory \<and>
   toy_verify (u_hashed_password mallory) ''pw'' = Inl HashError \<and>
   fst (login toy_verify ''n3'' 1000 False
          \<lparr>lb_email = Some ''m@x.com'', lb_password = Some ''pw''\<rparr> (clinic 5000 [])) =
     Inr \<lparr>status = 500, body = ErrorBody ''Internal Server Error'' ''Failed to login'',
           set_cookie = None\<rparr> \<and>
   fst (login toy_verify ''n3'' 1000 False
          \<lparr>lb_email = Some ''m@x.com'', lb_password = Some ''pw''\<rparr> (clinic 5000 [])) \<noteq>
     Inr \<lparr>status = 401, body = ErrorBody ''Unauthorized'' ''Invalid credentials'',
           set_cookie = None\<rparr>"
  by (simp add: login_eval)

text \<open>
  C5, amended. For every login request with non-empty email and password against a user
  whose stored hash makes \<open>verify\<close> raise, on a store whose lookup succeeds, the handler
  does not crash: its catch-all answers 500 \<open>{error: 'Internal Server Error', message:
  'Failed to login'}\<close> with no cookie, and no session or user is created.
\<close>

theorem malformed_hash_login_is_internal_error:
  assumes "lb_email r = Some e" "e \<noteq> []" "lb_password r = Some p" "p \<noteq> []"
    and "\<not> next_fails d" and "find (\<lambda>u. u_email u = e) (users d) = Some u"
    and "verify (u_hashed_password u) p = Inl err"
  shows "fst (login verify sid now sec r d) =
           Inr \<lparr>status = 500, body = ErrorBody ''Internal Server Error'' ''Failed to login'',
                 set_cookie = None\<rparr> \<and>
         sessions (snd (login verify sid now sec r d)) = sessions d \<and>
         users (snd (login verify sid now sec r d)) = users d"
  using login_verify_raises [where verify = verify, OF assms, of sid now sec] by simp

theorem malformed_hash_login_is_internal_error_witness:
  "fst (login toy_verify ''n3'' 1000 True
          \<lparr>lb_email = Some ''m@x.com'', lb_password = Some ''pw''\<rparr> (clinic 5000 [])) =
     Inr \<lparr>status = 500, body = ErrorBody ''Internal Server Error'' ''Failed to login'',
           set_cookie = None\<rparr> \<and>
   sessions (snd (login toy_verify ''n3'' 1000 True
          \<lparr>lb_email = Some ''m@x.com'', lb_password = Some ''pw''\<rparr> (clinic 5000 []))) =
     sessions (clinic 5000 [])"
proof -
  let ?r = "\<lparr>lb_email = Some ''m@x.com'', lb_password = Some ''pw''\<rparr>"
  let ?d = "clinic 5000 []"
  have e: "lb_email ?r = Some ''m@x.com''" "''m@x.com'' \<noteq> []"
    and p: "lb_password ?r = Some ''pw''" "''pw'' \<noteq> []"
    by simp_all
  have up: "\<not> next_fails ?d" by (simp add: clinic_defs)
  have known: "find (\<lambda>u. u_email u = ''m@x.com'') (users ?d) = Some mallory"
    by (simp add: clinic_defs)
  have bad: "toy_verify (u_hashed_password mallory) ''pw'' = Inl HashError"
    by (simp add: clinic_defs)
  from malformed_hash_login_is_internal_error [where verify = toy_verify,
      OF e p up known bad, of "''n3''" 1000 True]
  show ?thesis by simp
qed

section \<open>Sign-up\<close>

lemma next_fails_update [simp]:
  "next_fails (d\<lparr>users := us\<rparr>) = next_fails d"
  "next_fails (d\<lparr>sessions := ss\<rparr>) = next_fails d"
  by (simp_all add: next_fails_def)

lemma advance_update [simp]:
  "advance (d\<lparr>users := us\<rparr>) = (advance d)\<lparr>users := us\<rparr>"
  "advance (d\<lparr>sessions := ss\<rparr>) = (advance d)\<lparr>sessions := ss\<rparr>"
  by (simp_all add: advance_def)

lemma find_disj_None:
  "find (\<lambda>v. P v \<or> Q v) xs = None \<Longrightarrow> find Q xs = None"
  by (simp add: find_None_iff)

text \<open>
  C10. The sign-up handler takes the role from the request body and consults no identity:
  it is a function of the body, the generated ids, the clock, the hasher and the store
  only. For every sign-up request with a non-empty email and password, an email and a
  generated user id that are new to the store, a fresh session token, a hasher that
  succeeds and a store whose operations succeed: if the body carries a role \<open>r\<close> among
  admin, doctor, nurse and assistant, the user appended to the store and the 201 response
  both carry exactly \<open>r\<close> (\<open>admin\<close> included); if the body omits the role, both carry
  \<open>assistant\<close>.
\<close>

theorem signup_grants_requested_role:
  assumes "sb_email req = Some e" "e \<noteq> []" "sb_password req = Some p" "p \<noteq> []"
    and "(sb_role req = Some r \<and> r \<in> set [''admin'', ''doctor'', ''nurse'', ''assistant'']) \<or>
         (sb_role req = None \<and> r = ''assistant'')"
    and "healthy d"
    and "find (\<lambda>v. u_id v = userId \<or> u_email v = e) (users d) = None"
    and "hash p = Inr h" "h \<noteq> []" "userId \<noteq> []"
    and "sessionId \<noteq> []" "sessions d sessionId = None"
  shows "fst (signup hash userId sessionId now sec req d) =
           Inr \<lparr>status = 201,
                 body = UserBody ''User created successfully''
                          \<lparr>su_id = userId, su_email = e, su_role = r\<rparr>,
                 set_cookie = Some (createSessionCookie sessionId sec)\<rparr> \<and>
         users (snd (signup hash userId sessionId now sec req d)) =
           users d @ [\<lparr>u_id = userId, u_email = e, u_hashed_password = h, u_role = r\<rparr>]"
proof -
  have up: "\<not> next_fails d" "\<not> next_fails (advance d)" "\<not> next_fails (advance (advance d))"
    using assms(6) by (simp_all add: healthy_next healthy_advance)
  have fresh: "find (\<lambda>u. u_email u = e) (users d) = None"
    using assms(7) by (rule find_disj_None)
  have role: "or_else (sb_role req) ''assistant'' = r"
    using assms(5) by (auto simp: or_else_def)
  show ?thesis
    using assms(1-4,7-12) up fresh role
    by (simp add: signup_def createSession_def monad_defs store_defs round_trip_def falsy_def
          Let_def or_else_def [of "Some _"])
qed

theorem signup_grants_requested_role_witness:
  "fst (signup toy_hash ''u3'' ''n4'' 1000 True
          \<lparr>sb_email = Some ''new@x.com'', sb_password = Some ''p1'', sb_role = Some ''admin''\<rparr>
          (clinic 5000 [])) =
     Inr \<lparr>status = 201,
           body = UserBody ''User created successfully''
                    \<lparr>su_id = ''u3'', su_email = ''new@x.com'', su_role = ''admin''\<rparr>,
           set_cookie = Some (createSessionCookie ''n4'' True)\<rparr> \<and>
   users (snd (signup toy_hash ''u3'' ''n4'' 1000 True
          \<lparr>sb_email = Some ''new@x.com'', sb_password = Some ''p1'', sb_role = Some ''admin''\<rparr>
          (clinic 5000 []))) =
     [alice, mallory,
      \<lparr>u_id = ''u3'', u_email = ''new@x.com'', u_hashed_password = ''$p1'', u_role = ''admin''\<rparr>] \<and>
   fst (signup toy_hash ''u3'' ''n4'' 1000 True
          \<lparr>sb_email = Some ''new@x.com'', sb_password = Some ''p1'', sb_role = None\<rparr>
          (clinic 5000 [])) =
     Inr \<lparr>status = 201,
           body = UserBody ''User created successfully''
                    \<lparr>su_id = ''u3'', su_email = ''new@x.com'', su_role = ''assistant''\<rparr>,
           set_cookie = Some (createSessionCookie ''n4'' True)\<rparr>"
proof -
  let ?d = "clinic 5000 []"
  let ?req = "\<lparr>sb_email = Some ''new@x.com'', sb_password = Some ''p1'', sb_role = Some ''admin''\<rparr>"
  let ?req' = "\<lparr>sb_email = Some ''new@x.com'', sb_password = Some ''p1'', sb_role = None\<rparr>"
  have e: "sb_email ?req = Some ''new@x.com''" "''new@x.com'' \<noteq> []"
    and p: "sb_password ?req = Some ''p1''" "''p1'' \<noteq> []"
    and e': "sb_email ?req' = Some ''new@x.com''"
    and p': "sb_password ?req' = Some ''p1''"
    by simp_all
  have r: "(sb_role ?req = Some ''admin'' \<and>
             ''admin'' \<in> set [''admin'', ''doctor'', ''nurse'', ''assistant'']) \<or>
           (sb_role ?req = None \<and> ''admin'' = ''assistant'')"
    by simp
  have r': "(sb_role ?req' = Some ''assistant'' \<and>
             ''assistant'' \<in> set [''admin'', ''doctor'', ''nurse'', ''assistant'']) \<or>
           (sb_role ?req' = None \<and> ''assistant'' = ''assistant'')"
    by simp
  have up: "healthy ?d" by (simp add: clinic_defs)
  have fresh: "find (\<lambda>v. u_id v = ''u3'' \<or> u_email v = ''new@x.com'') (users ?d) = None"
    by (simp add: clinic_defs)
  have h: "toy_hash ''p1'' = Inr ''$p1''" "''$p1'' \<noteq> []" by (simp_all add: toy_hash_def)
  have ids: "''u3'' \<noteq> []" "''n4'' \<noteq> []" by simp_all
  have free: "sessions ?d ''n4'' = None" by (simp add: clinic_def)
  have us: "users ?d = [alice, mallory]" by (simp add: clinic_def)
  from signup_grants_requested_role [where hash = toy_hash, OF e p r up fresh h ids free,
         of 1000 True]
       signup_grants_requested_role [where hash = toy_hash, OF e' e(2) p' p(2) r' up fresh h ids free,
         of 1000 True]
       us
  show ?thesis by simp
qed

end
